theory Spec2Isabelle
  imports Main
begin

section \<open>Python values\<close>

text \<open>
  The values that flow through \<^verbatim>\<open>output_shape\<close>, edge labels and node parameters:
  \<^verbatim>\<open>None\<close>, integers, strings, tuples and lists. On these values Python's \<^verbatim>\<open>==\<close>
  is structural and a tuple never equals a list, so it coincides with HOL equality
  (booleans and floats, where \<^verbatim>\<open>True == 1 == 1.0\<close>, are left out for that reason).
\<close>

datatype pyval =
    PNone
  | PInt int
  | PStr string
  | PTuple "pyval list"
  | PList "pyval list"

text \<open>Truth value testing, as used by \<^verbatim>\<open>if output_shape:\<close>.\<close>

fun truthy :: "pyval \<Rightarrow> bool" where
  "truthy PNone = False"
| "truthy (PInt i) = (i \<noteq> 0)"
| "truthy (PStr s) = (s \<noteq> [])"
| "truthy (PTuple xs) = (xs \<noteq> [])"
| "truthy (PList xs) = (xs \<noteq> [])"

text \<open>\<^verbatim>\<open>isinstance(v, (tuple, list))\<close>.\<close>

fun is_tuple_or_list :: "pyval \<Rightarrow> bool" where
  "is_tuple_or_list (PTuple xs) = True"
| "is_tuple_or_list (PList xs) = True"
| "is_tuple_or_list v = False"

text \<open>\<^verbatim>\<open>str(type(v))\<close>, for example \<^verbatim>\<open><class 'int'>\<close>.\<close>

fun type_name :: "pyval \<Rightarrow> string" where
  "type_name PNone = ''NoneType''"
| "type_name (PInt i) = ''int''"
| "type_name (PStr s) = ''str''"
| "type_name (PTuple xs) = ''tuple''"
| "type_name (PList xs) = ''list''"

definition type_repr :: "pyval \<Rightarrow> string" where
  "type_repr v = ''<class '' @ [CHR 0x27] @ type_name v @ [CHR 0x27] @ ''>''"

section \<open>Errors\<close>

text \<open>
  The exceptions the modelled code raises: \<^verbatim>\<open>KeyError\<close> from \<^verbatim>\<open>del self.nodes[k]\<close> and
  \<^verbatim>\<open>self.nodes[k]\<close> (with the missing key), \<^verbatim>\<open>IndexError\<close> from \<^verbatim>\<open>nodes[0]\<close> on an
  empty list, and \<^verbatim>\<open>AssertionError\<close> from the \<^verbatim>\<open>assert\<close> statement (with its message).
\<close>

datatype 'k error =
    KeyError 'k
  | IndexError
  | AssertionError string

section \<open>Node\<close>

text \<open>
  A \<^verbatim>\<open>Node\<close> instance. The class defines no \<^verbatim>\<open>__eq__\<close>, so \<^verbatim>\<open>==\<close> on two nodes is
  object identity; \<open>oid\<close> is the identity (address) of the instance. The graph operations
  never assign to a node's attributes, so an instance is its identity together with its
  attribute values.
\<close>

record 'k node =
  oid :: nat
  node_id :: 'k
  name :: pyval
  op :: pyval
  repeat :: int
  output_shape :: pyval
  params :: "(string \<times> pyval) list"
  node_caption :: string

text \<open>
  \<^verbatim>\<open>Node.__init__(self, uid, name, op, output_shape=None, params=None)\<close>; \<open>addr\<close> is the
  identity of the instance being initialised. The \<^verbatim>\<open>assert\<close> is guarded by
  \<^verbatim>\<open>if output_shape:\<close> (assertions enabled, the interpreter's default).
\<close>

definition Node_init ::
  "nat \<Rightarrow> 'k \<Rightarrow> pyval \<Rightarrow> pyval \<Rightarrow> pyval \<Rightarrow> (string \<times> pyval) list option \<Rightarrow> 'k error + 'k node"
where
  "Node_init addr uid nm opn oshape ps =
     (if truthy oshape \<and> \<not> is_tuple_or_list oshape
      then Inl (AssertionError
                  (''output_shape must be a tuple or list but received '' @ type_repr oshape))
      else Inr \<lparr> oid = addr, node_id = uid, name = nm, op = opn, repeat = 1,
                 output_shape = oshape,
                 params = (case ps of None \<Rightarrow> [] | Some p \<Rightarrow> (if p \<noteq> [] then p else [])),
                 node_caption = [] \<rparr>)"

section \<open>Graph\<close>

text \<open>
  The objects handed to the graph's methods: \<^verbatim>\<open>Node\<close> instances and \<^verbatim>\<open>None\<close>
  (which \<^verbatim>\<open>replace\<close> itself passes to \<^verbatim>\<open>add_edge\<close> when \<^verbatim>\<open>self[k]\<close> finds no node).
\<close>

datatype 'k pyobj = NodeObj "'k node" | NoneObj

text \<open>Python's \<^verbatim>\<open>==\<close> on these objects: identity on nodes, \<^verbatim>\<open>None == None\<close>.\<close>

fun py_eq :: "'k pyobj \<Rightarrow> 'k pyobj \<Rightarrow> bool" where
  "py_eq (NodeObj a) (NodeObj b) = (oid a = oid b)"
| "py_eq NoneObj NoneObj = True"
| "py_eq a b = False"

text \<open>An edge is the tuple \<^verbatim>\<open>(source id, target id, label)\<close>.\<close>

type_synonym 'k edge = "'k \<times> 'k \<times> pyval"

text \<open>
  The graph's state: \<^verbatim>\<open>self.nodes\<close>, a dict from id to object, and \<^verbatim>\<open>self.edges\<close>, a list
  of edge tuples in insertion order.
\<close>

record 'k graph =
  nodes :: "'k \<Rightarrow> 'k pyobj option"
  edges :: "'k edge list"

text \<open>
  What the interpreter fixes and the source leaves open: the order in which
  \<^verbatim>\<open>list(set(xs))\<close> lists the elements of \<^verbatim>\<open>xs\<close>, and the value of \<^verbatim>\<open>hash(None)\<close>.
\<close>

record 'k runtime =
  list_of_set :: "'k list \<Rightarrow> 'k list"
  hash_None :: 'k

text \<open>\<^verbatim>\<open>list(set(xs))\<close> has the elements of \<^verbatim>\<open>xs\<close>, each once.\<close>

definition set_listing :: "('k list \<Rightarrow> 'k list) \<Rightarrow> bool" where
  "set_listing f \<longleftrightarrow> (\<forall>xs. set (f xs) = set xs \<and> distinct (f xs))"

text \<open>A method argument that is either one object or a list of them
  (\<^verbatim>\<open>x if isinstance(x, list) else [x]\<close>).\<close>

datatype 'a arg = Single 'a | Multiple "'a list"

fun as_list :: "'a arg \<Rightarrow> 'a list" where
  "as_list (Single x) = [x]"
| "as_list (Multiple xs) = xs"

text \<open>\<^verbatim>\<open>Graph.id\<close>: \<^verbatim>\<open>node.id if hasattr(node, "id") else hash(node)\<close>.\<close>

fun graph_id :: "'k runtime \<Rightarrow> 'k pyobj \<Rightarrow> 'k" where
  "graph_id rt (NodeObj n) = node_id n"
| "graph_id rt NoneObj = hash_None rt"

text \<open>\<^verbatim>\<open>x.output_shape if hasattr(x, "output_shape") else None\<close>.\<close>

fun shape_of :: "'k pyobj \<Rightarrow> pyval" where
  "shape_of (NodeObj n) = output_shape n"
| "shape_of NoneObj = PNone"

definition add_node :: "'k runtime \<Rightarrow> 'k graph \<Rightarrow> 'k pyobj \<Rightarrow> 'k graph" where
  "add_node rt g node = g\<lparr>nodes := (nodes g)(graph_id rt node \<mapsto> node)\<rparr>"

definition add_edge ::
  "'k runtime \<Rightarrow> 'k graph \<Rightarrow> 'k pyobj \<Rightarrow> 'k pyobj \<Rightarrow> pyval \<Rightarrow> 'k graph" where
  "add_edge rt g node1 node2 label =
     (let edge = (graph_id rt node1, graph_id rt node2, label)
      in if edge \<notin> set (edges g) then g\<lparr>edges := edges g @ [edge]\<rparr> else g)"

definition add_edge_by_id :: "'k graph \<Rightarrow> 'k \<Rightarrow> 'k \<Rightarrow> pyval \<Rightarrow> 'k graph" where
  "add_edge_by_id g vid1 vid2 label = g\<lparr>edges := edges g @ [(vid1, vid2, label)]\<rparr>"

definition outgoing :: "'k runtime \<Rightarrow> 'k graph \<Rightarrow> 'k pyobj arg \<Rightarrow> 'k list" where
  "outgoing rt g node =
     (let node_ids = map (graph_id rt) (as_list node)
      in list_of_set rt
           (map (\<lambda>e. fst (snd e)) (filter (\<lambda>e. fst e \<in> set node_ids) (edges g))))"

definition incoming :: "'k runtime \<Rightarrow> 'k graph \<Rightarrow> 'k pyobj \<Rightarrow> 'k list" where
  "incoming rt g node =
     map fst (filter (\<lambda>e. fst (snd e) = graph_id rt node) (edges g))"

text \<open>\<^verbatim>\<open>self.nodes.get(k)\<close>, and \<^verbatim>\<open>Graph.__getitem__\<close> on one key or a list of keys.\<close>

definition get_node :: "'k graph \<Rightarrow> 'k \<Rightarrow> 'k pyobj" where
  "get_node g k = (case nodes g k of None \<Rightarrow> NoneObj | Some n \<Rightarrow> n)"

fun getitem :: "'k graph \<Rightarrow> 'k arg \<Rightarrow> 'k pyobj arg" where
  "getitem g (Single k) = Single (get_node g k)"
| "getitem g (Multiple ks) = Multiple (map (get_node g) ks)"

text \<open>
  \<^verbatim>\<open>Graph.siblings\<close>: with exactly one entry in \<^verbatim>\<open>incoming(node)\<close>, look the parent up
  (\<^verbatim>\<open>self[incoming[0]]\<close>) and return \<^verbatim>\<open>self[self.outgoing(parent)]\<close>, otherwise \<^verbatim>\<open>[node]\<close>.
\<close>

definition siblings :: "'k runtime \<Rightarrow> 'k graph \<Rightarrow> 'k pyobj \<Rightarrow> 'k pyobj list" where
  "siblings rt g node =
     (let inc = incoming rt g node
      in if length inc = 1
         then (let parent = get_node g (inc ! 0)
               in as_list (getitem g (Multiple (outgoing rt g (Single parent)))))
         else [node])"

text \<open>
  A method that mutates the graph and may raise returns \<open>Inr g'\<close> when it returns normally
  and \<open>Inl (e, g')\<close> when it raises \<open>e\<close>; \<open>g'\<close> is the graph as the method leaves it.
\<close>

type_synonym 'k outcome = "('k error \<times> 'k graph) + 'k graph"

text \<open>
  \<^verbatim>\<open>Graph.remove\<close>: for each node, filter the edge list, then \<^verbatim>\<open>del self.nodes[k]\<close>, which
  raises \<^verbatim>\<open>KeyError\<close> when \<^verbatim>\<open>k\<close> is not a key.
\<close>

fun remove_loop :: "'k runtime \<Rightarrow> 'k graph \<Rightarrow> 'k pyobj list \<Rightarrow> 'k outcome" where
  "remove_loop rt g [] = Inr g"
| "remove_loop rt g (node # rest) =
     (let k = graph_id rt node;
          g1 = g\<lparr>edges := filter (\<lambda>e. fst e \<noteq> k \<and> fst (snd e) \<noteq> k) (edges g)\<rparr>
      in if k \<in> dom (nodes g1)
         then remove_loop rt (g1\<lparr>nodes := (nodes g1)(k := None)\<rparr>) rest
         else Inl (KeyError k, g1))"

definition remove :: "'k runtime \<Rightarrow> 'k graph \<Rightarrow> 'k pyobj arg \<Rightarrow> 'k outcome" where
  "remove rt g ns = remove_loop rt g (as_list ns)"

text \<open>
  \<^verbatim>\<open>Graph.replace\<close>. The first loop runs over \<^verbatim>\<open>self.incoming(nodes[0])\<close> and reads
  \<^verbatim>\<open>self.nodes[k]\<close> (a \<^verbatim>\<open>KeyError\<close> when \<^verbatim>\<open>k\<close> is not a key); the second runs over
  \<^verbatim>\<open>self.outgoing(nodes[-1])\<close>, computed after the first loop, and reads \<^verbatim>\<open>self[k]\<close>; the
  third removes the old nodes, skipping \<^verbatim>\<open>n\<close> when \<^verbatim>\<open>collapse and n == node\<close>.
\<close>

fun replace_incoming :: "'k runtime \<Rightarrow> 'k pyobj \<Rightarrow> 'k graph \<Rightarrow> 'k list \<Rightarrow> 'k outcome" where
  "replace_incoming rt node g [] = Inr g"
| "replace_incoming rt node g (k # ks) =
     (case nodes g k of
        None \<Rightarrow> Inl (KeyError k, g)
      | Some in_node \<Rightarrow>
          replace_incoming rt node (add_edge rt g in_node node (shape_of in_node)) ks)"

fun replace_outgoing :: "'k runtime \<Rightarrow> 'k pyobj \<Rightarrow> 'k graph \<Rightarrow> 'k list \<Rightarrow> 'k graph" where
  "replace_outgoing rt node g [] = g"
| "replace_outgoing rt node g (k # ks) =
     replace_outgoing rt node (add_edge rt g node (get_node g k) (shape_of node)) ks"

fun replace_remove ::
  "'k runtime \<Rightarrow> bool \<Rightarrow> 'k pyobj \<Rightarrow> 'k graph \<Rightarrow> 'k pyobj list \<Rightarrow> 'k outcome" where
  "replace_remove rt collapse node g [] = Inr g"
| "replace_remove rt collapse node g (n # ns) =
     (if collapse \<and> py_eq n node then replace_remove rt collapse node g ns
      else (case remove rt g (Single n) of
              Inl err \<Rightarrow> Inl err
            | Inr g' \<Rightarrow> replace_remove rt collapse node g' ns))"

definition replace :: "'k runtime \<Rightarrow> 'k graph \<Rightarrow> 'k pyobj arg \<Rightarrow> 'k pyobj \<Rightarrow> 'k outcome" where
  "replace rt g nodes_arg node =
     (let ns = as_list nodes_arg;
          collapse = (graph_id rt node \<in> dom (nodes g));
          g1 = (if \<not> collapse then add_node rt g node else g)
      in if ns = [] then Inl (IndexError, g1)
         else (case replace_incoming rt node g1 (incoming rt g1 (ns ! 0)) of
                 Inl err \<Rightarrow> Inl err
               | Inr g2 \<Rightarrow>
                   replace_remove rt collapse node
                     (replace_outgoing rt node g2 (outgoing rt g2 (Single (last ns)))) ns))"

section \<open>Concrete data for evaluation\<close>

text \<open>
  Identifiers as callers supply them (strings, or integers such as the one
  \<^verbatim>\<open>getrandbits(64)\<close> draws), and one admissible interpreter: \<^verbatim>\<open>list(set(xs))\<close> lists
  the elements in order of last occurrence, \<^verbatim>\<open>hash(None)\<close> is CPython 3.12's constant.
\<close>

datatype ident = IdStr string | IdInt int

definition example_runtime :: "ident runtime" where
  "example_runtime = \<lparr> list_of_set = remdups, hash_None = IdInt 4238894112 \<rparr>"

text \<open>\<^verbatim>\<open>Node(uid, name=None, op=opn, output_shape=shape)\<close> as the instance at \<open>addr\<close>.\<close>

definition mk_node :: "nat \<Rightarrow> string \<Rightarrow> string \<Rightarrow> pyval \<Rightarrow> ident pyobj" where
  "mk_node addr uid opn shape =
     NodeObj \<lparr> oid = addr, node_id = IdStr uid, name = PNone, op = PStr opn, repeat = 1,
               output_shape = shape, params = [], node_caption = [] \<rparr>"

text \<open>The graph a builder produces from a list of nodes and a list of edges, starting empty.\<close>

definition empty_graph :: "'k graph" where
  "empty_graph = \<lparr> nodes = Map.empty, edges = [] \<rparr>"

definition build :: "'k runtime \<Rightarrow> 'k pyobj list \<Rightarrow> 'k edge list \<Rightarrow> 'k graph" where
  "build rt ns es =
     fold (\<lambda>e g. add_edge_by_id g (fst e) (fst (snd e)) (snd (snd e))) es
       (fold (\<lambda>n g. add_node rt g n) ns empty_graph)"

definition node_A :: "ident pyobj" where "node_A = mk_node 1 ''A'' ''conv'' PNone"

definition node_B :: "ident pyobj" where "node_B = mk_node 2 ''B'' ''relu'' PNone"

definition node_C :: "ident pyobj" where "node_C = mk_node 3 ''C'' ''pool'' PNone"

definition node_X :: "ident pyobj" where "node_X = mk_node 9 ''X'' ''add'' PNone"

text \<open>The chain \<^verbatim>\<open>A -> B -> C\<close> of three stored nodes.\<close>

definition chain_graph :: "ident graph" where
  "chain_graph = build example_runtime [node_A, node_B, node_C]
     [(IdStr ''A'', IdStr ''B'', PNone), (IdStr ''B'', IdStr ''C'', PNone)]"

text \<open>Two stored nodes and an edge from \<^verbatim>\<open>B\<close> to an id with no stored node.\<close>

definition dangling_graph :: "ident graph" where
  "dangling_graph = build example_runtime [node_A, node_B]
     [(IdStr ''A'', IdStr ''B'', PNone), (IdStr ''B'', IdStr ''X'', PNone)]"

definition node_fused :: "ident pyobj" where
  "node_fused = mk_node 4 ''fused'' ''conv_relu_pool'' PNone"

text \<open>A second instance that carries the id of \<open>node_B\<close>.\<close>

definition node_B2 :: "ident pyobj" where
  "node_B2 = mk_node 5 ''B'' ''relu6'' PNone"

text \<open>One stored node and no edge.\<close>

definition single_graph :: "ident graph" where
  "single_graph = build example_runtime [node_A] []"

text \<open>An import that lists the edge from \<^verbatim>\<open>A\<close> to \<^verbatim>\<open>B\<close> twice.\<close>

definition duplicate_graph :: "ident graph" where
  "duplicate_graph = build example_runtime [node_A, node_B]
     [(IdStr ''A'', IdStr ''B'', PNone), (IdStr ''A'', IdStr ''B'', PNone)]"

definition fanout_graph :: "ident graph" where
  "fanout_graph = build example_runtime [node_A, node_B, node_C]
     [(IdStr ''A'', IdStr ''B'', PNone), (IdStr ''A'', IdStr ''B'', PNone),
      (IdStr ''A'', IdStr ''C'', PNone)]"

text \<open>One edge from \<^verbatim>\<open>A\<close> to \<^verbatim>\<open>B\<close>, labelled with a shape.\<close>

definition labelled_graph :: "ident graph" where
  "labelled_graph = build example_runtime [node_A, node_B]
     [(IdStr ''A'', IdStr ''B'', PList [PInt 1, PInt 3])]"

text \<open>
  \<^verbatim>\<open>A\<close> feeds \<^verbatim>\<open>B\<close> and \<^verbatim>\<open>C\<close>; the edge to \<^verbatim>\<open>B\<close> is added through \<^verbatim>\<open>add_edge\<close> twice,
  with two different labels.
\<close>

definition parallel_graph :: "ident graph" where
  "parallel_graph =
     add_edge example_runtime
       (add_edge example_runtime
          (add_edge example_runtime (build example_runtime [node_A, node_B, node_C] [])
             node_A node_B PNone)
          node_A node_B (PList [PInt 1, PInt 3]))
       node_A node_C PNone"

named_theorems example_defs

declare node_A_def [example_defs] node_B_def [example_defs] node_C_def [example_defs]
  node_X_def [example_defs] node_fused_def [example_defs] node_B2_def [example_defs]
  chain_graph_def [example_defs] dangling_graph_def [example_defs]
  single_graph_def [example_defs] duplicate_graph_def [example_defs]
  fanout_graph_def [example_defs] labelled_graph_def [example_defs]
  parallel_graph_def [example_defs]
  build_def [example_defs] mk_node_def [example_defs] example_runtime_def [example_defs]
  empty_graph_def [example_defs] add_node_def [example_defs] add_edge_by_id_def [example_defs]
  add_edge_def [example_defs]

section \<open>Auxiliary facts\<close>

lemma set_listing_remdups: "set_listing remdups"
  by (simp add: set_listing_def)

lemma set_listing_Nil: "set_listing f \<Longrightarrow> f [] = []"
  by (metis set_listing_def set_empty)

lemma set_listing_set: "set_listing f \<Longrightarrow> set (f xs) = set xs"
  by (simp add: set_listing_def)

lemma example_runtime_listing: "set_listing (list_of_set example_runtime)"
  by (simp add: example_runtime_def set_listing_remdups)

subsection \<open>remove\<close>

lemma remove_Single:
  "remove rt g (Single n) =
     (let k = graph_id rt n;
          g1 = g\<lparr>edges := filter (\<lambda>e. fst e \<noteq> k \<and> fst (snd e) \<noteq> k) (edges g)\<rparr>
      in if k \<in> dom (nodes g) then Inr (g1\<lparr>nodes := (nodes g)(k := None)\<rparr>)
         else Inl (KeyError k, g1))"
  by (simp add: remove_def Let_def)

lemma remove_loop_append:
  "remove_loop rt g (xs @ ys) =
     (case remove_loop rt g xs of Inl err \<Rightarrow> Inl err | Inr g' \<Rightarrow> remove_loop rt g' ys)"
  by (induction xs arbitrary: g) (simp_all add: Let_def)

lemma remove_loop_Inr:
  "remove_loop rt g ns = Inr g' \<Longrightarrow>
     nodes g' = (\<lambda>k. if k \<in> graph_id rt ` set ns then None else nodes g k) \<and>
     edges g' = filter (\<lambda>e. fst e \<notin> graph_id rt ` set ns \<and> fst (snd e) \<notin> graph_id rt ` set ns)
                  (edges g)"
proof (induction ns arbitrary: g)
  case Nil
  then show ?case by simp
next
  case (Cons n ns)
  let ?k = "graph_id rt n"
  let ?g1 = "g\<lparr>edges := filter (\<lambda>e. fst e \<noteq> ?k \<and> fst (snd e) \<noteq> ?k) (edges g)\<rparr>"
  from Cons.prems have in_dom: "?k \<in> dom (nodes g)"
    by (auto simp: Let_def split: if_splits)
  with Cons.prems have "remove_loop rt (?g1\<lparr>nodes := (nodes ?g1)(?k := None)\<rparr>) ns = Inr g'"
    by (simp add: Let_def)
  from Cons.IH [OF this] show ?case
    by (auto simp: fun_eq_iff intro: filter_cong)
qed

lemma remove_loop_succeeds:
  "distinct (map (graph_id rt) ns) \<Longrightarrow> graph_id rt ` set ns \<subseteq> dom (nodes g) \<Longrightarrow>
     \<exists>g'. remove_loop rt g ns = Inr g'"
proof (induction ns arbitrary: g)
  case Nil
  then show ?case by simp
next
  case (Cons n ns)
  let ?k = "graph_id rt n"
  let ?g2 = "g\<lparr>edges := filter (\<lambda>e. fst e \<noteq> ?k \<and> fst (snd e) \<noteq> ?k) (edges g),
               nodes := (nodes g)(?k := None)\<rparr>"
  have "distinct (map (graph_id rt) ns)" using Cons.prems by simp
  moreover have "graph_id rt ` set ns \<subseteq> dom (nodes ?g2)"
    using Cons.prems by (auto simp: image_iff)
  ultimately obtain g' where "remove_loop rt ?g2 ns = Inr g'"
    using Cons.IH by blast
  moreover have "?k \<in> dom (nodes g)" using Cons.prems by simp
  ultimately show ?case by (simp add: Let_def)
qed

lemma incoming_removed:
  "\<forall>e\<in>set (edges g). fst (snd e) \<noteq> graph_id rt n \<Longrightarrow> incoming rt g n = []"
  by (simp add: incoming_def filter_empty_conv)

lemma outgoing_removed:
  "set_listing (list_of_set rt) \<Longrightarrow> \<forall>e\<in>set (edges g). fst e \<noteq> graph_id rt n \<Longrightarrow>
     outgoing rt g (Single n) = []"
  by (simp add: outgoing_def filter_empty_conv set_listing_Nil)

subsection \<open>add_edge\<close>

lemma edges_add_edge:
  "edges (add_edge rt g n1 n2 l) =
     (if (graph_id rt n1, graph_id rt n2, l) \<in> set (edges g) then edges g
      else edges g @ [(graph_id rt n1, graph_id rt n2, l)])"
  by (simp add: add_edge_def Let_def)

lemma nodes_add_edge: "nodes (add_edge rt g n1 n2 l) = nodes g"
  by (simp add: add_edge_def Let_def)

subsection \<open>replace\<close>

lemma replace_incoming_stored:
  "set ks \<subseteq> dom (nodes g) \<Longrightarrow>
     \<exists>g2 extra. replace_incoming rt node g ks = Inr g2 \<and> nodes g2 = nodes g \<and>
                 edges g2 = edges g @ extra"
proof (induction ks arbitrary: g)
  case Nil
  then show ?case by simp
next
  case (Cons k ks)
  then obtain in_node where stored: "nodes g k = Some in_node" by auto
  let ?g = "add_edge rt g in_node node (shape_of in_node)"
  have "set ks \<subseteq> dom (nodes ?g)"
    using Cons.prems by (simp add: nodes_add_edge)
  from Cons.IH [OF this] obtain g2 extra
    where "replace_incoming rt node ?g ks = Inr g2" "nodes g2 = nodes ?g"
      "edges g2 = edges ?g @ extra"
    by blast
  then show ?case
    using stored by (auto simp: nodes_add_edge edges_add_edge)
qed

lemma replace_outgoing_extends:
  "\<exists>extra. nodes (replace_outgoing rt node g ks) = nodes g \<and>
            edges (replace_outgoing rt node g ks) = edges g @ extra"
proof (induction ks arbitrary: g)
  case Nil
  then show ?case by simp
next
  case (Cons k ks)
  let ?g = "add_edge rt g node (get_node g k) (shape_of node)"
  from Cons.IH [of ?g] obtain extra
    where "nodes (replace_outgoing rt node ?g ks) = nodes ?g"
      "edges (replace_outgoing rt node ?g ks) = edges ?g @ extra"
    by blast
  then show ?case
    by (auto simp: nodes_add_edge edges_add_edge)
qed

lemma py_eq_refl: "py_eq a a"
  by (cases a) simp_all

lemma incoming_extends:
  "edges g' = edges g @ extra \<Longrightarrow> set (incoming rt g n) \<subseteq> set (incoming rt g' n)"
  by (auto simp: incoming_def)

lemma outgoing_extends:
  "set_listing (list_of_set rt) \<Longrightarrow> edges g' = edges g @ extra \<Longrightarrow>
     set (outgoing rt g n) \<subseteq> set (outgoing rt g' n)"
  by (auto simp: outgoing_def set_listing_set)

section \<open>Removing nodes\<close>

text \<open>
  C5. When every node of the argument (one node, or a list naming no id twice) has its id
  in the node mapping, \<^verbatim>\<open>remove\<close> returns normally; afterwards none of these ids is a key,
  the edge list is the old one without the edges that have one of these ids as source or
  as target, and for each removed node \<^verbatim>\<open>incoming\<close> and \<^verbatim>\<open>outgoing\<close> are empty and
  indexing the graph with its id gives \<^verbatim>\<open>None\<close>. On any list, \<^verbatim>\<open>remove\<close> is the
  single-node \<^verbatim>\<open>remove\<close> applied to each member in turn.
\<close>

theorem remove_deletes_node_and_edges:
  assumes listing: "set_listing (list_of_set rt)"
    and present: "graph_id rt ` set (as_list arg) \<subseteq> dom (nodes g)"
    and once: "distinct (map (graph_id rt) (as_list arg))"
  shows "(\<exists>g'. remove rt g arg = Inr g' \<and>
           nodes g' = (\<lambda>k. if k \<in> graph_id rt ` set (as_list arg) then None else nodes g k) \<and>
           edges g' = filter (\<lambda>e. fst e \<notin> graph_id rt ` set (as_list arg) \<and>
                                  fst (snd e) \<notin> graph_id rt ` set (as_list arg)) (edges g) \<and>
           (\<forall>n\<in>set (as_list arg).
              incoming rt g' n = [] \<and> outgoing rt g' (Single n) = [] \<and>
              getitem g' (Single (graph_id rt n)) = Single NoneObj)) \<and>
         remove rt h (Multiple (m # ms)) =
           (case remove rt h (Single m) of
              Inl err \<Rightarrow> Inl err
            | Inr h' \<Rightarrow> remove rt h' (Multiple ms))"
proof -
  have each: "remove rt h (Multiple (m # ms)) =
           (case remove rt h (Single m) of
              Inl err \<Rightarrow> Inl err
            | Inr h' \<Rightarrow> remove rt h' (Multiple ms))"
    by (simp add: remove_def Let_def)
  from remove_loop_succeeds [OF once present]
  obtain g' where run: "remove rt g arg = Inr g'"
    by (auto simp: remove_def)
  then have "remove_loop rt g (as_list arg) = Inr g'"
    by (simp add: remove_def)
  from remove_loop_Inr [OF this]
  have ns: "nodes g' = (\<lambda>k. if k \<in> graph_id rt ` set (as_list arg) then None else nodes g k)"
    and es: "edges g' = filter (\<lambda>e. fst e \<notin> graph_id rt ` set (as_list arg) \<and>
                                  fst (snd e) \<notin> graph_id rt ` set (as_list arg)) (edges g)"
    by simp_all
  have "incoming rt g' n = [] \<and> outgoing rt g' (Single n) = [] \<and>
        getitem g' (Single (graph_id rt n)) = Single NoneObj"
    if "n \<in> set (as_list arg)" for n
  proof -
    have "\<forall>e\<in>set (edges g'). fst (snd e) \<noteq> graph_id rt n"
      and "\<forall>e\<in>set (edges g'). fst e \<noteq> graph_id rt n"
      using that by (auto simp: es)
    moreover have "nodes g' (graph_id rt n) = None"
      using that by (simp add: ns)
    ultimately show ?thesis
      using listing by (simp add: incoming_removed outgoing_removed get_node_def)
  qed
  with run ns es each show ?thesis by blast
qed

theorem remove_deletes_node_and_edges_witness:
  "set_listing (list_of_set example_runtime) \<and>
   graph_id example_runtime ` set (as_list (Multiple [node_A, node_B]))
     \<subseteq> dom (nodes chain_graph) \<and>
   distinct (map (graph_id example_runtime) (as_list (Multiple [node_A, node_B]))) \<and>
   (\<exists>g'. remove example_runtime chain_graph (Multiple [node_A, node_B]) = Inr g' \<and>
         edges g' = [] \<and> dom (nodes g') = {IdStr ''C''} \<and>
         incoming example_runtime g' node_B = [] \<and>
         outgoing example_runtime g' (Single node_A) = [] \<and>
         getitem g' (Single (IdStr ''A'')) = Single NoneObj)"
proof -
  have present: "graph_id example_runtime ` set (as_list (Multiple [node_A, node_B]))
                   \<subseteq> dom (nodes chain_graph)"
    by (simp add: example_defs)
  have once: "distinct (map (graph_id example_runtime) (as_list (Multiple [node_A, node_B])))"
    by (simp add: example_defs)
  from remove_deletes_node_and_edges [OF example_runtime_listing present once]
  obtain g' where run: "remove example_runtime chain_graph (Multiple [node_A, node_B]) = Inr g'"
    and ns: "nodes g' =
               (\<lambda>k. if k \<in> graph_id example_runtime ` set (as_list (Multiple [node_A, node_B]))
                     then None else nodes chain_graph k)"
    and es: "edges g' =
               filter (\<lambda>e. fst e \<notin> graph_id example_runtime ` set (as_list (Multiple [node_A, node_B])) \<and>
                           fst (snd e) \<notin> graph_id example_runtime ` set (as_list (Multiple [node_A, node_B])))
                 (edges chain_graph)"
    and each: "\<forall>n\<in>set (as_list (Multiple [node_A, node_B])).
              incoming example_runtime g' n = [] \<and> outgoing example_runtime g' (Single n) = [] \<and>
              getitem g' (Single (graph_id example_runtime n)) = Single NoneObj"
    by blast
  have "edges g' = []" by (simp add: es example_defs)
  moreover have "dom (nodes g') = {IdStr ''C''}"
    by (auto simp: ns example_defs split: if_splits)
  moreover have "incoming example_runtime g' node_B = []"
    and "outgoing example_runtime g' (Single node_A) = []"
    and "getitem g' (Single (IdStr ''A'')) = Single NoneObj"
    using each by (simp_all add: node_A_def mk_node_def)
  ultimately show ?thesis
    using example_runtime_listing present once run by blast
qed

text \<open>
  C7. \<^verbatim>\<open>remove\<close> on a node whose id is not a key of the node mapping raises \<^verbatim>\<open>KeyError\<close>
  with that id, whether the node is passed alone or in a one-element list; it never
  returns normally.
\<close>

theorem remove_missing_raises_KeyError:
  assumes "graph_id rt n \<notin> dom (nodes g)"
  shows "(\<exists>g'. remove rt g (Single n) = Inl (KeyError (graph_id rt n), g')) \<and>
         (\<exists>g'. remove rt g (Multiple [n]) = Inl (KeyError (graph_id rt n), g')) \<and>
         (\<forall>g'. remove rt g (Single n) \<noteq> Inr g')"
  using assms by (simp add: remove_def Let_def)

theorem remove_missing_raises_KeyError_witness:
  "graph_id example_runtime node_X \<notin> dom (nodes chain_graph) \<and>
   (\<exists>g'. remove example_runtime chain_graph (Single node_X) = Inl (KeyError (IdStr ''X''), g'))"
proof -
  have missing: "graph_id example_runtime node_X \<notin> dom (nodes chain_graph)"
    by (simp add: example_defs)
  show ?thesis
    using missing remove_missing_raises_KeyError [OF missing] by (simp add: node_X_def mk_node_def)
qed

text \<open>
  C8. \<^verbatim>\<open>remove\<close> is not atomic. On a node whose id is not a key, the graph it leaves when
  \<^verbatim>\<open>KeyError\<close> is raised has already lost every edge with that id as source or target. In
  a list, when the nodes before the failing one are removed successfully, the graph left
  at the error is the one after those removals (less the failing id's edges): the
  earlier nodes are no keys any more and no remaining edge touches them.
\<close>

theorem remove_not_atomic:
  "(graph_id rt n \<notin> dom (nodes g) \<longrightarrow>
      remove rt g (Single n) =
        Inl (KeyError (graph_id rt n),
             g\<lparr>edges := filter (\<lambda>e. fst e \<noteq> graph_id rt n \<and> fst (snd e) \<noteq> graph_id rt n)
                           (edges g)\<rparr>)) \<and>
   (remove rt g (Multiple ns) = Inr g1 \<and> graph_id rt n \<notin> dom (nodes g1) \<longrightarrow>
      (\<exists>g'. remove rt g (Multiple (ns @ n # rest)) = Inl (KeyError (graph_id rt n), g') \<and>
            nodes g' = nodes g1 \<and>
            edges g' = filter (\<lambda>e. fst e \<noteq> graph_id rt n \<and> fst (snd e) \<noteq> graph_id rt n)
                         (edges g1) \<and>
            (\<forall>m\<in>set ns. nodes g' (graph_id rt m) = None \<and>
                (\<forall>e\<in>set (edges g'). fst e \<noteq> graph_id rt m \<and> fst (snd e) \<noteq> graph_id rt m))))"
proof (intro conjI impI)
  assume "graph_id rt n \<notin> dom (nodes g)"
  then show "remove rt g (Single n) =
        Inl (KeyError (graph_id rt n),
             g\<lparr>edges := filter (\<lambda>e. fst e \<noteq> graph_id rt n \<and> fst (snd e) \<noteq> graph_id rt n)
                           (edges g)\<rparr>)"
    by (simp add: remove_Single Let_def)
next
  let ?k = "graph_id rt n"
  let ?g' = "g1\<lparr>edges := filter (\<lambda>e. fst e \<noteq> ?k \<and> fst (snd e) \<noteq> ?k) (edges g1)\<rparr>"
  assume a: "remove rt g (Multiple ns) = Inr g1 \<and> ?k \<notin> dom (nodes g1)"
  then have loop: "remove_loop rt g ns = Inr g1" and missing: "?k \<notin> dom (nodes g1)"
    by (simp_all add: remove_def)
  have "remove rt g (Multiple (ns @ n # rest)) = Inl (KeyError ?k, ?g')"
    using loop missing by (simp add: remove_def remove_loop_append Let_def)
  moreover have "nodes g1 (graph_id rt m) = None \<and>
      (\<forall>e\<in>set (edges ?g'). fst e \<noteq> graph_id rt m \<and> fst (snd e) \<noteq> graph_id rt m)"
    if "m \<in> set ns" for m
    using remove_loop_Inr [OF loop] that by auto
  ultimately show "\<exists>g'. remove rt g (Multiple (ns @ n # rest)) = Inl (KeyError ?k, g') \<and>
            nodes g' = nodes g1 \<and>
            edges g' = filter (\<lambda>e. fst e \<noteq> ?k \<and> fst (snd e) \<noteq> ?k) (edges g1) \<and>
            (\<forall>m\<in>set ns. nodes g' (graph_id rt m) = None \<and>
                (\<forall>e\<in>set (edges g'). fst e \<noteq> graph_id rt m \<and> fst (snd e) \<noteq> graph_id rt m))"
    by (intro exI [of _ ?g']) (simp, blast)
qed

theorem remove_not_atomic_witness:
  "graph_id example_runtime node_X \<notin> dom (nodes dangling_graph) \<and>
   remove example_runtime dangling_graph (Single node_X) =
     Inl (KeyError (IdStr ''X''), dangling_graph\<lparr>edges := [(IdStr ''A'', IdStr ''B'', PNone)]\<rparr>) \<and>
   remove example_runtime dangling_graph (Multiple [node_A]) =
     Inr (dangling_graph\<lparr>edges := [(IdStr ''B'', IdStr ''X'', PNone)],
                          nodes := (nodes dangling_graph)(IdStr ''A'' := None)\<rparr>) \<and>
   (\<exists>g'. remove example_runtime dangling_graph (Multiple ([node_A] @ node_X # [node_B])) =
            Inl (KeyError (IdStr ''X''), g') \<and>
         edges g' = [] \<and> nodes g' (IdStr ''A'') = None \<and> nodes g' (IdStr ''B'') = Some node_B)"
proof -
  let ?g1 = "dangling_graph\<lparr>edges := [(IdStr ''B'', IdStr ''X'', PNone)],
                          nodes := (nodes dangling_graph)(IdStr ''A'' := None)\<rparr>"
  have missing: "graph_id example_runtime node_X \<notin> dom (nodes dangling_graph)"
    by (simp add: example_defs)
  have first: "remove example_runtime dangling_graph (Multiple [node_A]) = Inr ?g1"
    by (simp add: remove_def Let_def example_defs)
  have missing1: "graph_id example_runtime node_X \<notin> dom (nodes ?g1)"
    by (simp add: example_defs)
  note inst =
    remove_not_atomic [of example_runtime node_X dangling_graph "[node_A]" ?g1 "[node_B]"]
  from inst missing
  have single: "remove example_runtime dangling_graph (Single node_X) =
     Inl (KeyError (IdStr ''X''), dangling_graph\<lparr>edges := [(IdStr ''A'', IdStr ''B'', PNone)]\<rparr>)"
    by (simp add: example_defs)
  from inst first missing1
  obtain g' where
    "remove example_runtime dangling_graph (Multiple ([node_A] @ node_X # [node_B])) =
       Inl (KeyError (graph_id example_runtime node_X), g')"
    and "nodes g' = nodes ?g1"
    and "edges g' = filter (\<lambda>e. fst e \<noteq> graph_id example_runtime node_X \<and>
                                fst (snd e) \<noteq> graph_id example_runtime node_X) (edges ?g1)"
    by blast
  then have "remove example_runtime dangling_graph (Multiple ([node_A] @ node_X # [node_B])) =
            Inl (KeyError (IdStr ''X''), g') \<and>
         edges g' = [] \<and> nodes g' (IdStr ''A'') = None \<and> nodes g' (IdStr ''B'') = Some node_B"
    by (simp add: example_defs)
  with missing single first show ?thesis by blast
qed

section \<open>Constructing a node\<close>

text \<open>
  C4, as the claim states it, fails: \<^verbatim>\<open>output_shape=0\<close> is a scalar, yet the guard
  \<^verbatim>\<open>if output_shape:\<close> skips the check and the node is constructed; and where the
  check does reject a value, as for \<^verbatim>\<open>output_shape=5\<close>, the error is the
  \<^verbatim>\<open>AssertionError\<close> of the \<^verbatim>\<open>assert\<close> statement, not a \<^verbatim>\<open>TypeError\<close>.
\<close>

theorem Node_init_counterexample:
  "Node_init 1 (IdStr ''n'') PNone (PStr ''conv'') (PInt 0) None =
     Inr \<lparr> oid = 1, node_id = IdStr ''n'', name = PNone, op = PStr ''conv'', repeat = 1,
           output_shape = PInt 0, params = [], node_caption = [] \<rparr> \<and>
   Node_init 1 (IdStr ''n'') PNone (PStr ''conv'') (PInt 5) None =
     Inl (AssertionError ''output_shape must be a tuple or list but received <class 'int'>'')"
  by (simp add: Node_init_def type_repr_def)

text \<open>
  C4, amended. Constructing a node with any tuple or list as \<^verbatim>\<open>output_shape\<close> succeeds
  and stores it; constructing it with a value that is true in a boolean context and is
  neither a tuple nor a list raises \<^verbatim>\<open>AssertionError\<close> with the message
  \<^verbatim>\<open>output_shape must be a tuple or list but received <type>\<close>.
\<close>

theorem Node_init_output_shape:
  "(is_tuple_or_list shape \<longrightarrow>
      (\<exists>n. Node_init addr uid nm opn shape ps = Inr n \<and> output_shape n = shape \<and>
           node_id n = uid \<and> oid n = addr)) \<and>
   (truthy other \<and> \<not> is_tuple_or_list other \<longrightarrow>
      Node_init addr uid nm opn other ps =
        Inl (AssertionError
               (''output_shape must be a tuple or list but received '' @ type_repr other)))"
  by (simp add: Node_init_def)

theorem Node_init_output_shape_witness:
  "is_tuple_or_list (PList [PInt 1, PInt 3]) \<and>
   truthy (PStr ''3x3'') \<and> \<not> is_tuple_or_list (PStr ''3x3'') \<and>
   (\<exists>n. Node_init 1 (IdStr ''n'') PNone (PStr ''conv'') (PList [PInt 1, PInt 3]) None = Inr n \<and>
        output_shape n = PList [PInt 1, PInt 3]) \<and>
   Node_init 1 (IdStr ''n'') PNone (PStr ''conv'') (PStr ''3x3'') None =
     Inl (AssertionError ''output_shape must be a tuple or list but received <class 'str'>'')"
proof -
  note inst = Node_init_output_shape [of "PList [PInt 1, PInt 3]" 1 "IdStr ''n''" PNone
                "PStr ''conv''" None "PStr ''3x3''"]
  have seq: "is_tuple_or_list (PList [PInt 1, PInt 3])"
    and str: "truthy (PStr ''3x3'') \<and> \<not> is_tuple_or_list (PStr ''3x3'')"
    by simp_all
  from inst seq
  have ok: "\<exists>n. Node_init 1 (IdStr ''n'') PNone (PStr ''conv'') (PList [PInt 1, PInt 3]) None = Inr n \<and>
        output_shape n = PList [PInt 1, PInt 3]"
    by blast
  from inst str
  have "Node_init 1 (IdStr ''n'') PNone (PStr ''conv'') (PStr ''3x3'') None =
     Inl (AssertionError (''output_shape must be a tuple or list but received '' @
                          type_repr (PStr ''3x3'')))"
    by blast
  then have "Node_init 1 (IdStr ''n'') PNone (PStr ''conv'') (PStr ''3x3'') None =
     Inl (AssertionError ''output_shape must be a tuple or list but received <class 'str'>'')"
    by (simp add: type_repr_def)
  with seq str ok show ?thesis by blast
qed

section \<open>Adding edges\<close>

text \<open>
  C3, as the claim states it, fails on two graph states. When an import has stored the
  triple twice, two \<^verbatim>\<open>add_edge\<close> calls with that triple leave two copies, not one. When
  the graph already holds the edge with the other label, the second call appends nothing.
\<close>

theorem add_edge_counterexample:
  "count_list
     (edges (add_edge example_runtime (add_edge example_runtime duplicate_graph node_A node_B PNone)
               node_A node_B PNone))
     (graph_id example_runtime node_A, graph_id example_runtime node_B, PNone) = 2 \<and>
   edges (add_edge example_runtime (add_edge example_runtime labelled_graph node_A node_B PNone)
            node_A node_B (PList [PInt 1, PInt 3])) =
     edges (add_edge example_runtime labelled_graph node_A node_B PNone)"
  by (simp add: example_defs Let_def)

text \<open>
  C3, amended. In every graph state the second of two \<^verbatim>\<open>add_edge\<close> calls with the same
  triple changes nothing; when the triple occurred at most once before, it occurs exactly
  once afterwards; and a further call with the same endpoints and a different label
  appends that triple at the end of the edge list when it is not already in the list.
\<close>

theorem add_edge_no_duplicate:
  "add_edge rt (add_edge rt g n1 n2 l) n1 n2 l = add_edge rt g n1 n2 l \<and>
   (count_list (edges g) (graph_id rt n1, graph_id rt n2, l) \<le> 1 \<longrightarrow>
      count_list (edges (add_edge rt (add_edge rt g n1 n2 l) n1 n2 l))
        (graph_id rt n1, graph_id rt n2, l) = 1) \<and>
   (l' \<noteq> l \<and> (graph_id rt n1, graph_id rt n2, l') \<notin> set (edges g) \<longrightarrow>
      edges (add_edge rt (add_edge rt g n1 n2 l) n1 n2 l') =
        edges (add_edge rt g n1 n2 l) @ [(graph_id rt n1, graph_id rt n2, l')])"
proof (intro conjI impI)
  show idem: "add_edge rt (add_edge rt g n1 n2 l) n1 n2 l = add_edge rt g n1 n2 l"
    by (simp add: add_edge_def Let_def)
  let ?e = "(graph_id rt n1, graph_id rt n2, l)"
  assume le: "count_list (edges g) ?e \<le> 1"
  have "count_list (edges (add_edge rt g n1 n2 l)) ?e = 1"
  proof (cases "?e \<in> set (edges g)")
    case True
    then have "count_list (edges g) ?e > 0" by (metis count_list_0_iff gr0I)
    with le have "count_list (edges g) ?e = 1" by simp
    with True show ?thesis by (simp add: edges_add_edge)
  next
    case False
    then show ?thesis by (simp add: edges_add_edge count_list_0_iff)
  qed
  with idem show "count_list (edges (add_edge rt (add_edge rt g n1 n2 l) n1 n2 l)) ?e = 1"
    by simp
next
  assume "l' \<noteq> l \<and> (graph_id rt n1, graph_id rt n2, l') \<notin> set (edges g)"
  then show "edges (add_edge rt (add_edge rt g n1 n2 l) n1 n2 l') =
        edges (add_edge rt g n1 n2 l) @ [(graph_id rt n1, graph_id rt n2, l')]"
    by (simp add: edges_add_edge)
qed

theorem add_edge_no_duplicate_witness:
  "count_list (edges chain_graph) (graph_id example_runtime node_A, graph_id example_runtime node_B, PNone) \<le> 1 \<and>
   PList [PInt 1, PInt 3] \<noteq> PNone \<and>
   (graph_id example_runtime node_A, graph_id example_runtime node_B, PList [PInt 1, PInt 3])
     \<notin> set (edges chain_graph) \<and>
   edges (add_edge example_runtime (add_edge example_runtime chain_graph node_A node_B PNone)
            node_A node_B PNone) =
     [(IdStr ''A'', IdStr ''B'', PNone), (IdStr ''B'', IdStr ''C'', PNone)] \<and>
   edges (add_edge example_runtime (add_edge example_runtime chain_graph node_A node_B PNone)
            node_A node_B (PList [PInt 1, PInt 3])) =
     [(IdStr ''A'', IdStr ''B'', PNone), (IdStr ''B'', IdStr ''C'', PNone),
      (IdStr ''A'', IdStr ''B'', PList [PInt 1, PInt 3])]"
proof -
  have once: "count_list (edges chain_graph)
                (graph_id example_runtime node_A, graph_id example_runtime node_B, PNone) \<le> 1"
    by (simp add: example_defs)
  have other: "PList [PInt 1, PInt 3] \<noteq> PNone \<and>
    (graph_id example_runtime node_A, graph_id example_runtime node_B, PList [PInt 1, PInt 3])
      \<notin> set (edges chain_graph)"
    by (simp add: example_defs)
  note inst = add_edge_no_duplicate [of example_runtime chain_graph node_A node_B PNone
                                       "PList [PInt 1, PInt 3]"]
  have same: "add_edge example_runtime chain_graph node_A node_B PNone = chain_graph"
    by (simp add: example_defs Let_def)
  from inst have "edges (add_edge example_runtime (add_edge example_runtime chain_graph node_A node_B PNone)
            node_A node_B PNone) = edges chain_graph"
    by (simp add: same)
  moreover from inst other
  have "edges (add_edge example_runtime (add_edge example_runtime chain_graph node_A node_B PNone)
            node_A node_B (PList [PInt 1, PInt 3])) =
        edges chain_graph @ [(graph_id example_runtime node_A, graph_id example_runtime node_B,
                              PList [PInt 1, PInt 3])]"
    by (simp add: same)
  ultimately show ?thesis
    using once other by (simp add: example_defs)
qed

text \<open>
  C10. Neither \<^verbatim>\<open>add_edge\<close> nor \<^verbatim>\<open>add_edge_by_id\<close> looks at the node mapping. When
  neither endpoint's id is a key, the edge is stored all the same and the node mapping is
  unchanged; \<^verbatim>\<open>outgoing\<close> of the source reports the target id, \<^verbatim>\<open>incoming\<close> of the target
  reports the source id, and indexing the graph with either id gives \<^verbatim>\<open>None\<close>.
\<close>

theorem dangling_edge_accepted:
  assumes listing: "set_listing (list_of_set rt)"
    and src: "graph_id rt n1 \<notin> dom (nodes g)"
    and tgt: "graph_id rt n2 \<notin> dom (nodes g)"
  shows "(let g' = add_edge rt g n1 n2 l
          in (graph_id rt n1, graph_id rt n2, l) \<in> set (edges g') \<and>
             nodes g' = nodes g \<and>
             graph_id rt n2 \<in> set (outgoing rt g' (Single n1)) \<and>
             graph_id rt n1 \<in> set (incoming rt g' n2) \<and>
             getitem g' (Single (graph_id rt n1)) = Single NoneObj \<and>
             getitem g' (Single (graph_id rt n2)) = Single NoneObj) \<and>
         (let g' = add_edge_by_id g (graph_id rt n1) (graph_id rt n2) l
          in edges g' = edges g @ [(graph_id rt n1, graph_id rt n2, l)] \<and>
             nodes g' = nodes g \<and>
             graph_id rt n2 \<in> set (outgoing rt g' (Single n1)) \<and>
             graph_id rt n1 \<in> set (incoming rt g' n2) \<and>
             getitem g' (Single (graph_id rt n1)) = Single NoneObj \<and>
             getitem g' (Single (graph_id rt n2)) = Single NoneObj)"
proof -
  have stored: "(graph_id rt n1, graph_id rt n2, l) \<in> set (edges g') \<Longrightarrow> nodes g' = nodes g \<Longrightarrow>
      graph_id rt n2 \<in> set (outgoing rt g' (Single n1)) \<and>
      graph_id rt n1 \<in> set (incoming rt g' n2) \<and>
      getitem g' (Single (graph_id rt n1)) = Single NoneObj \<and>
      getitem g' (Single (graph_id rt n2)) = Single NoneObj" for g'
    using src tgt
    by (force simp: outgoing_def incoming_def get_node_def set_listing_set [OF listing] domIff
          split: option.splits)
  have "(graph_id rt n1, graph_id rt n2, l) \<in> set (edges (add_edge rt g n1 n2 l))"
    and "nodes (add_edge rt g n1 n2 l) = nodes g"
    by (simp_all add: edges_add_edge nodes_add_edge)
  moreover have "(graph_id rt n1, graph_id rt n2, l)
                   \<in> set (edges (add_edge_by_id g (graph_id rt n1) (graph_id rt n2) l))"
    and "nodes (add_edge_by_id g (graph_id rt n1) (graph_id rt n2) l) = nodes g"
    and "edges (add_edge_by_id g (graph_id rt n1) (graph_id rt n2) l) =
           edges g @ [(graph_id rt n1, graph_id rt n2, l)]"
    by (simp_all add: add_edge_by_id_def)
  ultimately show ?thesis
    using stored by (simp add: Let_def)
qed

theorem dangling_edge_accepted_witness:
  "set_listing (list_of_set example_runtime) \<and>
   graph_id example_runtime node_X \<notin> dom (nodes single_graph) \<and>
   graph_id example_runtime node_C \<notin> dom (nodes single_graph) \<and>
   edges (add_edge example_runtime single_graph node_X node_C PNone) =
     [(IdStr ''X'', IdStr ''C'', PNone)] \<and>
   IdStr ''C'' \<in> set (outgoing example_runtime
                        (add_edge example_runtime single_graph node_X node_C PNone) (Single node_X)) \<and>
   IdStr ''X'' \<in> set (incoming example_runtime
                        (add_edge_by_id single_graph (IdStr ''X'') (IdStr ''C'') PNone) node_C) \<and>
   getitem (add_edge example_runtime single_graph node_X node_C PNone) (Single (IdStr ''X''))
     = Single NoneObj"
proof -
  have src: "graph_id example_runtime node_X \<notin> dom (nodes single_graph)"
    and tgt: "graph_id example_runtime node_C \<notin> dom (nodes single_graph)"
    by (simp_all add: example_defs)
  have ids: "graph_id example_runtime node_X = IdStr ''X''"
    "graph_id example_runtime node_C = IdStr ''C''"
    by (simp_all add: example_defs)
  have "edges (add_edge example_runtime single_graph node_X node_C PNone) =
     [(IdStr ''X'', IdStr ''C'', PNone)]"
    by (simp add: example_defs Let_def)
  then show ?thesis
    using example_runtime_listing src tgt
      dangling_edge_accepted [OF example_runtime_listing src tgt, of PNone]
    by (simp add: ids Let_def)
qed

section \<open>Siblings\<close>




text \<open>
  C9. When every edge into \<^verbatim>\<open>n\<close> comes from the one node \<^verbatim>\<open>p\<close> and there are two or
  more such edges, \<^verbatim>\<open>incoming(n)\<close> lists \<^verbatim>\<open>p\<close> once for each edge, without
  deduplication, and \<^verbatim>\<open>siblings(n)\<close> is \<^verbatim>\<open>[n]\<close> alone.
\<close>

theorem siblings_parallel_edges:
  assumes only_parent: "\<forall>e\<in>set (edges g). fst (snd e) = graph_id rt n \<longrightarrow> fst e = p"
    and parallel: "2 \<le> length (filter (\<lambda>e. fst e = p \<and> fst (snd e) = graph_id rt n) (edges g))"
  shows "incoming rt g n =
           replicate (length (filter (\<lambda>e. fst e = p \<and> fst (snd e) = graph_id rt n) (edges g))) p \<and>
         siblings rt g n = [n]"
proof -
  let ?into = "filter (\<lambda>e. fst e = p \<and> fst (snd e) = graph_id rt n) (edges g)"
  have same: "filter (\<lambda>e. fst (snd e) = graph_id rt n) (edges g) = ?into"
    using only_parent by (intro filter_cong) auto
  have inc: "incoming rt g n = replicate (length ?into) p"
    unfolding incoming_def same by (intro replicate_eqI) auto
  then have "length (incoming rt g n) \<noteq> 1"
    using parallel by simp
  then have "siblings rt g n = [n]"
    by (simp add: siblings_def Let_def)
  with inc show ?thesis by simp
qed

theorem siblings_parallel_edges_witness:
  "map fst (filter (\<lambda>e. fst (snd e) = graph_id example_runtime node_B) (edges fanout_graph)) =
     [IdStr ''A'', IdStr ''A''] \<and>
   2 \<le> length (filter (\<lambda>e. fst e = IdStr ''A'' \<and> fst (snd e) = graph_id example_runtime node_B)
                  (edges fanout_graph)) \<and>
   incoming example_runtime fanout_graph node_B = [IdStr ''A'', IdStr ''A''] \<and>
   siblings example_runtime fanout_graph node_B = [node_B] \<and>
   outgoing example_runtime fanout_graph (Single node_A) = [IdStr ''B'', IdStr ''C'']"
proof -
  have only_parent: "\<forall>e\<in>set (edges fanout_graph).
      fst (snd e) = graph_id example_runtime node_B \<longrightarrow> fst e = IdStr ''A''"
    by (simp add: example_defs)
  have count: "length (filter (\<lambda>e. fst e = IdStr ''A'' \<and> fst (snd e) = graph_id example_runtime node_B)
                  (edges fanout_graph)) = 2"
    by (simp add: example_defs)
  then have parallel: "2 \<le> length (filter (\<lambda>e. fst e = IdStr ''A'' \<and>
                  fst (snd e) = graph_id example_runtime node_B) (edges fanout_graph))"
    by simp
  have out: "outgoing example_runtime fanout_graph (Single node_A) = [IdStr ''B'', IdStr ''C'']"
    by (simp add: example_defs outgoing_def Let_def)
  from siblings_parallel_edges [OF only_parent parallel]
  have "incoming example_runtime fanout_graph node_B = replicate 2 (IdStr ''A'')"
    and sib: "siblings example_runtime fanout_graph node_B = [node_B]"
    unfolding count by simp_all
  then have "incoming example_runtime fanout_graph node_B = [IdStr ''A'', IdStr ''A'']"
    by (simp add: numeral_2_eq_2)
  moreover have "map fst (filter (\<lambda>e. fst (snd e) = graph_id example_runtime node_B)
                            (edges fanout_graph)) = [IdStr ''A'', IdStr ''A'']"
    by (simp add: example_defs)
  ultimately show ?thesis using sib out parallel by blast
qed

section \<open>Replacing nodes\<close>






end
